theory Spec2Isabelle
  imports Complex_Main "HOL-Library.AList"
begin

section \<open>JavaScript values carried by the alert payloads\<close>

text \<open>
  The alert provider (\<^verbatim>\<open>AlertProvider\<close> in \<^verbatim>\<open>src/frontend/src/components/Header.js\<close>,
  lines 279-438) works on whatever \<^verbatim>\<open>response.data\<close> the HTTP client decoded from JSON.
  A decoded value is one of the JSON shapes, or \<^verbatim>\<open>undefined\<close> for a property that is
  not there. Numbers are exact rationals here: a payload cannot carry NaN, and the
  comparisons the provider makes against \<^verbatim>\<open>0.8\<close> and \<^verbatim>\<open>0.6\<close> are read on the decimal
  values. An object is its list of own properties, looked up by the first entry of a
  key.
\<close>

datatype jsval =
    JUndefined
  | JNull
  | JBool bool
  | JNum rat
  | JStr string
  | JArr "jsval list"
  | JObj "(string \<times> jsval) list"

type_synonym alert = "(string \<times> jsval) list"

datatype exn = TypeError | RequestFailed

text \<open>Truthiness, as \<^verbatim>\<open>||\<close>, \<^verbatim>\<open>&&\<close>, \<^verbatim>\<open>!\<close> and \<^verbatim>\<open>filter\<close> read a value.\<close>

fun truthy :: "jsval \<Rightarrow> bool" where
  "truthy JUndefined = False"
| "truthy JNull = False"
| "truthy (JBool b) = b"
| "truthy (JNum r) = (r \<noteq> 0)"
| "truthy (JStr s) = (s \<noteq> [])"
| "truthy (JArr xs) = True"
| "truthy (JObj kvs) = True"

text \<open>\<^verbatim>\<open>a || b\<close>: the left operand when it is truthy, the right one otherwise.\<close>

definition js_or :: "jsval \<Rightarrow> jsval \<Rightarrow> jsval" where
  "js_or a b = (if truthy a then a else b)"

text \<open>
  \<^verbatim>\<open>a ?? b\<close>, which the provider does not use: the left operand unless it is
  \<^verbatim>\<open>null\<close> or \<^verbatim>\<open>undefined\<close>. It is here to state the specification's reading of the
  normaliser next to the code's.
\<close>

definition nullish :: "jsval \<Rightarrow> bool" where
  "nullish a = (a = JUndefined \<or> a = JNull)"

definition js_coalesce :: "jsval \<Rightarrow> jsval \<Rightarrow> jsval" where
  "js_coalesce a b = (if nullish a then b else a)"

text \<open>
  \<^verbatim>\<open>a === b\<close>. Primitives are equal when they are the same primitive. Arrays and
  objects are equal only as the same reference, which a decoded payload never shares
  with a primitive; the theorems that use \<^verbatim>\<open>===\<close> take a primitive on one side.
\<close>

fun is_prim :: "jsval \<Rightarrow> bool" where
  "is_prim (JArr xs) = False"
| "is_prim (JObj kvs) = False"
| "is_prim v = True"

definition strict_eq :: "jsval \<Rightarrow> jsval \<Rightarrow> bool" where
  "strict_eq a b = (is_prim a \<and> is_prim b \<and> a = b)"

text \<open>Own property \<^verbatim>\<open>k\<close> of an object; \<^verbatim>\<open>undefined\<close> when it has none.\<close>

definition prop_of :: "alert \<Rightarrow> string \<Rightarrow> jsval" where
  "prop_of kvs k = (case map_of kvs k of None \<Rightarrow> JUndefined | Some v \<Rightarrow> v)"

text \<open>
  \<^verbatim>\<open>v.k\<close> for a value that is not \<^verbatim>\<open>null\<close> or \<^verbatim>\<open>undefined\<close>, and a name \<^verbatim>\<open>k\<close> that no
  prototype defines (the provider reads \<^verbatim>\<open>alerts\<close>, \<^verbatim>\<open>alert_id\<close>, \<^verbatim>\<open>id\<close>,
  \<^verbatim>\<open>is_acknowledged\<close> and \<^verbatim>\<open>acknowledged\<close>): a string, number, boolean or array has no
  such property.
\<close>

definition field :: "jsval \<Rightarrow> string \<Rightarrow> jsval" where
  "field v k = (case v of JObj kvs \<Rightarrow> prop_of kvs k | _ \<Rightarrow> JUndefined)"

text \<open>\<^verbatim>\<open>{...o, k: v}\<close>: an own key keeps its place and takes the new value, a new key is added last.\<close>

definition set_prop :: "string \<Rightarrow> jsval \<Rightarrow> alert \<Rightarrow> alert" where
  "set_prop k v kvs = AList.update k v kvs"

text \<open>Array index keys, \<^verbatim>\<open>String(i)\<close>.\<close>

fun index_key :: "nat \<Rightarrow> string" where
  "index_key n =
     (if n < 10 then [''0123456789'' ! n]
      else index_key (n div 10) @ [''0123456789'' ! (n mod 10)])"

declare index_key.simps [simp del]

text \<open>
  \<^verbatim>\<open>{...v}\<close>: the own enumerable properties of \<^verbatim>\<open>v\<close>. An object gives its
  properties, an array and a string their indexed elements, every other value none
  (spreading \<^verbatim>\<open>null\<close> or \<^verbatim>\<open>undefined\<close> does not throw).
\<close>

fun spread :: "jsval \<Rightarrow> alert" where
  "spread (JObj kvs) = kvs"
| "spread (JArr xs) = zip (map index_key [0..<length xs]) xs"
| "spread (JStr s) = zip (map index_key [0..<length s]) (map (\<lambda>c. JStr [c]) s)"
| "spread v = []"

fun isArray :: "jsval \<Rightarrow> bool" where
  "isArray (JArr xs) = True"
| "isArray v = False"

fun elements :: "jsval \<Rightarrow> jsval list" where
  "elements (JArr xs) = xs"
| "elements v = []"

section \<open>The normaliser inside fetchAlerts\<close>

text \<open>
  Header.js 307-311 and 313-317, the arrow function given to \<^verbatim>\<open>map\<close>:
  \<^verbatim>\<open>alert => ({...alert, id: alert.alert_id || alert.id,
     is_acknowledged: alert.is_acknowledged || alert.acknowledged || false})\<close>.
  Reading a property of \<^verbatim>\<open>null\<close> or \<^verbatim>\<open>undefined\<close> throws a TypeError.
\<close>

definition canonical :: "jsval \<Rightarrow> alert" where
  "canonical a =
     set_prop ''is_acknowledged''
       (js_or (js_or (field a ''is_acknowledged'') (field a ''acknowledged'')) (JBool False))
       (set_prop ''id'' (js_or (field a ''alert_id'') (field a ''id''))
          (spread a))"

definition mapAlert :: "jsval \<Rightarrow> exn + alert" where
  "mapAlert a = (if nullish a then Inl TypeError else Inr (canonical a))"

text \<open>\<^verbatim>\<open>xs.map(f)\<close> for an \<^verbatim>\<open>f\<close> that may throw: the first exception ends the map.\<close>

fun mapAlerts :: "jsval list \<Rightarrow> exn + alert list" where
  "mapAlerts [] = Inr []"
| "mapAlerts (a # as) =
     (case mapAlert a of
        Inl e \<Rightarrow> Inl e
      | Inr x \<Rightarrow> (case mapAlerts as of Inl e \<Rightarrow> Inl e | Inr xs \<Rightarrow> Inr (x # xs)))"

text \<open>
  Header.js 305-318, from \<^verbatim>\<open>let alertsData = []\<close> to the end of the \<^verbatim>\<open>else if\<close>;
  the argument is \<^verbatim>\<open>response.data\<close>.
\<close>

definition normalizePayload :: "jsval \<Rightarrow> exn + alert list" where
  "normalizePayload d =
     (if truthy d \<and> truthy (field d ''alerts'') \<and> isArray (field d ''alerts'')
      then mapAlerts (elements (field d ''alerts''))
      else if isArray d then mapAlerts (elements d)
      else Inr [])"

text \<open>
  The normaliser as the specification words it (section 4.2), with \<^verbatim>\<open>??\<close> in place of
  \<^verbatim>\<open>||\<close>; only the two resolved fields are compared with the code's.
\<close>

definition spec_id :: "jsval \<Rightarrow> jsval" where
  "spec_id a = js_coalesce (field a ''alert_id'') (field a ''id'')"

definition spec_isAcknowledged :: "jsval \<Rightarrow> jsval" where
  "spec_isAcknowledged a =
     js_coalesce (js_coalesce (field a ''is_acknowledged'') (field a ''acknowledged'')) (JBool False)"

section \<open>Derived views and stats\<close>

text \<open>
  The data model's type of a risk score: a number, or absent (no such property, or
  \<^verbatim>\<open>null\<close>).
\<close>

fun num_or_absent :: "jsval \<Rightarrow> bool" where
  "num_or_absent (JNum r) = True"
| "num_or_absent JUndefined = True"
| "num_or_absent JNull = True"
| "num_or_absent v = False"

text \<open>
  \<^verbatim>\<open>x >= c\<close> and \<^verbatim>\<open>x < c\<close> against a number literal convert \<^verbatim>\<open>x\<close> with ToNumber;
  a comparison with NaN (\<open>None\<close>) is false. ToNumber of a string, an array or an
  object belongs to the JavaScript runtime and is the parameter \<open>tonum\<close>.
\<close>

definition to_number :: "(jsval \<Rightarrow> rat option) \<Rightarrow> jsval \<Rightarrow> rat option" where
  "to_number tonum v =
     (case v of
        JUndefined \<Rightarrow> None
      | JNull \<Rightarrow> Some 0
      | JBool b \<Rightarrow> Some (if b then 1 else 0)
      | JNum r \<Rightarrow> Some r
      | _ \<Rightarrow> tonum v)"

definition js_ge :: "(jsval \<Rightarrow> rat option) \<Rightarrow> jsval \<Rightarrow> rat \<Rightarrow> bool" where
  "js_ge tonum v c = (case to_number tonum v of None \<Rightarrow> False | Some x \<Rightarrow> c \<le> x)"

definition js_lt :: "(jsval \<Rightarrow> rat option) \<Rightarrow> jsval \<Rightarrow> rat \<Rightarrow> bool" where
  "js_lt tonum v c = (case to_number tonum v of None \<Rightarrow> False | Some x \<Rightarrow> x < c)"

text \<open>Header.js 393-400, the four \<^verbatim>\<open>filter\<close> callbacks and the views they give.\<close>

definition isActive :: "alert \<Rightarrow> bool" where
  "isActive a = (\<not> truthy (prop_of a ''is_acknowledged''))"

definition isCritical :: "(jsval \<Rightarrow> rat option) \<Rightarrow> alert \<Rightarrow> bool" where
  "isCritical tonum a =
     (strict_eq (prop_of a ''severity'') (JStr ''critical'')
      \<or> (truthy (prop_of a ''risk_score'') \<and> js_ge tonum (prop_of a ''risk_score'') (8 / 10)))"

definition isHighRisk :: "(jsval \<Rightarrow> rat option) \<Rightarrow> alert \<Rightarrow> bool" where
  "isHighRisk tonum a =
     (strict_eq (prop_of a ''severity'') (JStr ''high'')
      \<or> (truthy (prop_of a ''risk_score'') \<and> js_ge tonum (prop_of a ''risk_score'') (6 / 10)
           \<and> js_lt tonum (prop_of a ''risk_score'') (8 / 10)))"

definition isAcknowledgedAlert :: "alert \<Rightarrow> bool" where
  "isAcknowledgedAlert a = truthy (prop_of a ''is_acknowledged'')"

definition activeAlerts :: "alert list \<Rightarrow> alert list" where
  "activeAlerts xs = filter isActive xs"

definition criticalAlerts :: "(jsval \<Rightarrow> rat option) \<Rightarrow> alert list \<Rightarrow> alert list" where
  "criticalAlerts tonum xs = filter (isCritical tonum) xs"

definition highRiskAlerts :: "(jsval \<Rightarrow> rat option) \<Rightarrow> alert list \<Rightarrow> alert list" where
  "highRiskAlerts tonum xs = filter (isHighRisk tonum) xs"

definition acknowledgedAlerts :: "alert list \<Rightarrow> alert list" where
  "acknowledgedAlerts xs = filter isAcknowledgedAlert xs"

record stats =
  total_count :: nat
  active :: nat
  critical :: nat
  highRisk :: nat
  acknowledged :: nat

text \<open>Header.js 402-408; \<^verbatim>\<open>total\<close> is the field \<open>total_count\<close>.\<close>

definition stats_of :: "(jsval \<Rightarrow> rat option) \<Rightarrow> alert list \<Rightarrow> stats" where
  "stats_of tonum xs =
     \<lparr> total_count = length xs,
       active = length (activeAlerts xs),
       critical = length (criticalAlerts tonum xs),
       highRisk = length (highRiskAlerts tonum xs),
       acknowledged = length (acknowledgedAlerts xs) \<rparr>"

section \<open>The provider's state, its setters and its requests\<close>

datatype request = GetActiveAlerts | PostAcknowledge jsval | DeleteAlert jsval

text \<open>How a request settles: the promise fulfils with \<^verbatim>\<open>response.data\<close>, or rejects.\<close>

datatype outcome = Fulfilled jsval | Rejected

text \<open>
  What the provider does to the world outside its own code, in call order: a call of
  one of the four React state setters (with the value the state takes), a request
  handed to \<^verbatim>\<open>alertAPI\<close>, and the timers it sets and clears.
\<close>

datatype effect =
    SetAlerts "alert list"
  | SetLoading bool
  | SetError "string option"
  | SetLastUpdated nat
  | Requested request
  | SetTimeout500
  | SetInterval30000
  | ClearInterval

text \<open>
  The four \<^verbatim>\<open>useState\<close> cells of Header.js 293-296 (\<^verbatim>\<open>null\<close> is \<open>None\<close>, a
  \<^verbatim>\<open>Date\<close> is its time), and what the callbacks touch around them: the time
  \<^verbatim>\<open>new Date()\<close> reads, whether the polling interval is set, how many 500 ms
  reconciliation timeouts wait to fire, whether the provider is mounted, and the
  \<open>trace\<close> of effects. A setter call is recorded in the trace and applied to its
  cell, in call order. The code never asks whether the provider is still mounted; what
  the React runtime does with an update that arrives after the unmount is not code of
  this repository, and the theorems about teardown speak of the setter calls in the
  trace only.
\<close>

record state =
  alerts :: "alert list"
  loading :: bool
  error :: "string option"
  lastUpdated :: "nat option"
  clock :: nat
  interval :: bool
  timeouts :: nat
  mounted :: bool
  trace :: "effect list"

definition setAlerts :: "alert list \<Rightarrow> state \<Rightarrow> state" where
  "setAlerts xs s = s\<lparr>alerts := xs, trace := trace s @ [SetAlerts xs]\<rparr>"

definition setLoading :: "bool \<Rightarrow> state \<Rightarrow> state" where
  "setLoading b s = s\<lparr>loading := b, trace := trace s @ [SetLoading b]\<rparr>"

definition setError :: "string option \<Rightarrow> state \<Rightarrow> state" where
  "setError e s = s\<lparr>error := e, trace := trace s @ [SetError e]\<rparr>"

definition setLastUpdated :: "nat \<Rightarrow> state \<Rightarrow> state" where
  "setLastUpdated t s = s\<lparr>lastUpdated := Some t, trace := trace s @ [SetLastUpdated t]\<rparr>"

definition requested :: "request \<Rightarrow> state \<Rightarrow> state" where
  "requested q s = s\<lparr>trace := trace s @ [Requested q]\<rparr>"

definition setTimeout500 :: "state \<Rightarrow> state" where
  "setTimeout500 s = s\<lparr>timeouts := timeouts s + 1, trace := trace s @ [SetTimeout500]\<rparr>"

definition setInterval30000 :: "state \<Rightarrow> state" where
  "setInterval30000 s = s\<lparr>interval := True, trace := trace s @ [SetInterval30000]\<rparr>"

definition clearInterval :: "state \<Rightarrow> state" where
  "clearInterval s = s\<lparr>interval := False, trace := trace s @ [ClearInterval]\<rparr>"

section \<open>Async functions as resumable computations\<close>

text \<open>
  An \<^verbatim>\<open>async\<close> function runs until it returns or reaches an \<^verbatim>\<open>await\<close> of a request.
  There it hands back the state it has reached, the request, and the rest of its body:
  a function of the request's outcome and of the state found when it resumes (other
  callbacks may have run in between).
\<close>

datatype ret = RetAlerts "alert list" | RetBool bool

datatype proc =
    Return state ret
  | Await state request "outcome \<Rightarrow> state \<Rightarrow> proc"

text \<open>\<^verbatim>\<open>await p; rest\<close> for an async call \<^verbatim>\<open>p\<close>.\<close>

primrec then_proc :: "proc \<Rightarrow> (ret \<Rightarrow> state \<Rightarrow> proc) \<Rightarrow> proc" where
  "then_proc (Return s r) rest = rest r s"
| "then_proc (Await s q k) rest = Await s q (\<lambda>out s'. then_proc (k out s') rest)"

fun state_of :: "proc \<Rightarrow> state" where
  "state_of (Return s r) = s"
| "state_of (Await s q k) = s"

fun awaits :: "proc \<Rightarrow> request option" where
  "awaits (Return s r) = None"
| "awaits (Await s q k) = Some q"

fun returns :: "proc \<Rightarrow> ret option" where
  "returns (Return s r) = Some r"
| "returns (Await s q k) = None"

text \<open>The computation after its awaited request settled with \<open>out\<close>, resumed in state \<open>s\<close>.\<close>

fun resume :: "proc \<Rightarrow> outcome \<Rightarrow> state \<Rightarrow> proc" where
  "resume (Return s0 r) out s = Return s0 r"
| "resume (Await s0 q k) out s = k out s"

text \<open>
  Header.js 298-331, \<^verbatim>\<open>fetchAlerts\<close>. The part after the \<^verbatim>\<open>await\<close>: a rejected request
  and an exception of the normaliser both land in \<^verbatim>\<open>catch\<close>; \<^verbatim>\<open>finally\<close> runs on
  both paths.
\<close>

definition fetchAlerts_resume :: "outcome \<Rightarrow> state \<Rightarrow> proc" where
  "fetchAlerts_resume out s =
     (case (case out of Rejected \<Rightarrow> Inl RequestFailed | Fulfilled d \<Rightarrow> normalizePayload d) of
        Inr alertsData \<Rightarrow>
          Return (setLoading False (setLastUpdated (clock s) (setAlerts alertsData s)))
                 (RetAlerts alertsData)
      | Inl e \<Rightarrow>
          Return (setLoading False (setError (Some ''Failed to load alerts'') s))
                 (RetAlerts []))"

text \<open>A fetch fails when its request rejects or the normaliser throws.\<close>

definition fetch_failed :: "outcome \<Rightarrow> bool" where
  "fetch_failed out = (case out of Rejected \<Rightarrow> True | Fulfilled d \<Rightarrow> isl (normalizePayload d))"

definition fetchAlerts :: "state \<Rightarrow> proc" where
  "fetchAlerts s =
     Await (requested GetActiveAlerts (setError None (setLoading True s)))
           GetActiveAlerts fetchAlerts_resume"

text \<open>Header.js 336-338, the updater given to \<^verbatim>\<open>setAlerts\<close> by \<^verbatim>\<open>acknowledgeAlert\<close>.\<close>

definition acknowledgeEdit :: "jsval \<Rightarrow> alert list \<Rightarrow> alert list" where
  "acknowledgeEdit alertId prev =
     map (\<lambda>a. if strict_eq (prop_of a ''id'') alertId
              then set_prop ''is_acknowledged'' (JBool True) a else a) prev"

text \<open>Header.js 333-356, \<^verbatim>\<open>acknowledgeAlert\<close>.\<close>

definition acknowledgeAlert :: "jsval \<Rightarrow> state \<Rightarrow> proc" where
  "acknowledgeAlert alertId s =
     Await (requested (PostAcknowledge alertId) (setAlerts (acknowledgeEdit alertId (alerts s)) s))
           (PostAcknowledge alertId)
           (\<lambda>out s'. case out of
                Fulfilled v \<Rightarrow> Return (setTimeout500 (setLastUpdated (clock s') s')) (RetBool True)
              | Rejected \<Rightarrow> then_proc (fetchAlerts s') (\<lambda>r s''. Return s'' (RetBool False)))"

text \<open>Header.js 361, the updater given to \<^verbatim>\<open>setAlerts\<close> by \<^verbatim>\<open>dismissAlert\<close>.\<close>

definition dismissEdit :: "jsval \<Rightarrow> alert list \<Rightarrow> alert list" where
  "dismissEdit alertId prev = filter (\<lambda>a. \<not> strict_eq (prop_of a ''id'') alertId) prev"

text \<open>Header.js 358-379, \<^verbatim>\<open>dismissAlert\<close>.\<close>

definition dismissAlert :: "jsval \<Rightarrow> state \<Rightarrow> proc" where
  "dismissAlert alertId s =
     Await (requested (DeleteAlert alertId) (setAlerts (dismissEdit alertId (alerts s)) s))
           (DeleteAlert alertId)
           (\<lambda>out s'. case out of
                Fulfilled v \<Rightarrow> Return (setTimeout500 (setLastUpdated (clock s') s')) (RetBool True)
              | Rejected \<Rightarrow> then_proc (fetchAlerts s') (\<lambda>r s''. Return s'' (RetBool False)))"

text \<open>Header.js 381-383.\<close>

definition refreshAlerts :: "state \<Rightarrow> proc" where
  "refreshAlerts s = fetchAlerts s"

section \<open>The event loop around the provider\<close>

text \<open>
  The provider's state, the requests in flight with the computation each will resume,
  and the values the finished calls returned. An event is one callback the browser
  runs to its next suspension: the mount effect (Header.js 386-390), a fire of the
  30 s interval, a manual refresh, a call of acknowledge or dismiss, the settling of
  the \<open>n\<close>-th request in flight, a fire of a 500 ms timeout (Header.js 347, 370), the
  effect's cleanup at unmount, and the passing of time. Events come in any order: how
  long a request takes, and the delays of the timers, are not modelled.
\<close>

record world =
  st :: state
  pending :: "(request \<times> (outcome \<Rightarrow> state \<Rightarrow> proc)) list"
  returned :: "ret list"

datatype event =
    Mount
  | TimerFire
  | Refresh
  | Acknowledge jsval
  | Dismiss jsval
  | Settle nat outcome
  | TimeoutFire
  | Unmount
  | Tick nat

fun run :: "proc \<Rightarrow> world \<Rightarrow> world" where
  "run (Return s r) w = w\<lparr>st := s, returned := returned w @ [r]\<rparr>"
| "run (Await s q k) w = w\<lparr>st := s, pending := pending w @ [(q, k)]\<rparr>"

fun step :: "event \<Rightarrow> world \<Rightarrow> world" where
  "step Mount w =
     (let w' = run (fetchAlerts ((st w)\<lparr>mounted := True\<rparr>)) w
      in w'\<lparr>st := setInterval30000 (st w')\<rparr>)"
| "step TimerFire w = (if interval (st w) then run (fetchAlerts (st w)) w else w)"
| "step Refresh w = run (refreshAlerts (st w)) w"
| "step (Acknowledge alertId) w = run (acknowledgeAlert alertId (st w)) w"
| "step (Dismiss alertId) w = run (dismissAlert alertId (st w)) w"
| "step (Settle n out) w =
     (if n < length (pending w)
      then run (snd (pending w ! n) out (st w))
               (w\<lparr>pending := take n (pending w) @ drop (Suc n) (pending w)\<rparr>)
      else w)"
| "step TimeoutFire w =
     (if 0 < timeouts (st w)
      then run (fetchAlerts ((st w)\<lparr>timeouts := timeouts (st w) - 1\<rparr>)) w
      else w)"
| "step Unmount w = w\<lparr>st := (clearInterval (st w))\<lparr>mounted := False\<rparr>\<rparr>"
| "step (Tick n) w = w\<lparr>st := (st w)\<lparr>clock := clock (st w) + n\<rparr>\<rparr>"

fun exec :: "event list \<Rightarrow> world \<Rightarrow> world" where
  "exec [] w = w"
| "exec (e # es) w = exec es (step e w)"

definition init :: world where
  "init =
     \<lparr> st = \<lparr> alerts = [], loading = False, error = None, lastUpdated = None, clock = 0,
              interval = False, timeouts = 0, mounted = False, trace = [] \<rparr>,
       pending = [], returned = [] \<rparr>"

text \<open>The fetches in flight: the pending \<^verbatim>\<open>GET /alerts/active\<close> requests.\<close>

definition inflight :: "world \<Rightarrow> nat" where
  "inflight w = length (filter (\<lambda>p. fst p = GetActiveAlerts) (pending w))"

text \<open>The fetch result of the specification's stats scenario (section 8).\<close>

definition scenario_payload :: jsval where
  "scenario_payload =
     JArr [JObj [(''id'', JStr ''a1''), (''risk_score'', JNum (85 / 100)),
                 (''is_acknowledged'', JBool False)],
           JObj [(''id'', JStr ''a2''), (''severity'', JStr ''medium''),
                 (''is_acknowledged'', JBool True)]]"

section \<open>Properties of the normaliser\<close>

lemma prop_of_set_prop_same: "prop_of (set_prop k v kvs) k = v"
  by (simp add: prop_of_def set_prop_def update_conv')

lemma prop_of_set_prop_other: "k' \<noteq> k \<Longrightarrow> prop_of (set_prop k v kvs) k' = prop_of kvs k'"
  by (simp add: prop_of_def set_prop_def update_conv')

lemma canonical_id: "prop_of (canonical a) ''id'' = js_or (field a ''alert_id'') (field a ''id'')"
  by (simp add: canonical_def prop_of_set_prop_same prop_of_set_prop_other)

lemma canonical_is_acknowledged:
  "prop_of (canonical a) ''is_acknowledged'' =
     js_or (js_or (field a ''is_acknowledged'') (field a ''acknowledged'')) (JBool False)"
  by (simp add: canonical_def prop_of_set_prop_same)

lemma canonical_other:
  "k \<noteq> ''id'' \<Longrightarrow> k \<noteq> ''is_acknowledged'' \<Longrightarrow> prop_of (canonical a) k = prop_of (spread a) k"
  by (simp add: canonical_def prop_of_set_prop_other)

lemma mapAlerts_Inr: "\<forall>a\<in>set xs. \<not> nullish a \<Longrightarrow> mapAlerts xs = Inr (map canonical xs)"
  by (induction xs) (simp_all add: mapAlert_def)

lemma normalizePayload_array: "normalizePayload (JArr xs) = mapAlerts xs"
  by (simp add: normalizePayload_def field_def)

lemma normalizePayload_wrapped:
  "prop_of kvs ''alerts'' = JArr xs \<Longrightarrow> normalizePayload (JObj kvs) = mapAlerts xs"
  by (simp add: normalizePayload_def field_def)

lemma normalizePayload_other:
  "\<not> isArray d \<Longrightarrow> \<not> isArray (field d ''alerts'') \<Longrightarrow> normalizePayload d = Inr []"
  by (simp add: normalizePayload_def)

lemma truthy_js_or: "truthy (js_or a b) = (truthy a \<or> truthy b)"
  by (simp add: js_or_def)

lemmas setters = setAlerts_def setLoading_def setError_def setLastUpdated_def requested_def
  setTimeout500_def setInterval30000_def clearInterval_def

lemma strict_eq_prim: "is_prim b \<Longrightarrow> strict_eq a b = (a = b)"
  by (auto simp: strict_eq_def)

text \<open>
  C3, as the specification states it, fails: an element with neither \<^verbatim>\<open>alert_id\<close> nor
  \<^verbatim>\<open>id\<close>, or with an empty one, keeps an empty id, and a \<^verbatim>\<open>null\<close> element makes the
  mapping throw.
\<close>

theorem normalizer_shapes_counterexample:
  "normalizePayload (JArr [JObj []]) = Inr [[(''id'', JUndefined), (''is_acknowledged'', JBool False)]]
   \<and> prop_of (canonical (JObj [])) ''id'' = JUndefined
   \<and> normalizePayload (JObj [(''alerts'', JArr [JObj [(''id'', JStr '''')]])])
       = Inr [[(''id'', JStr ''''), (''is_acknowledged'', JBool False)]]
   \<and> normalizePayload (JArr [JNull]) = Inl TypeError"
  by (simp add: normalizePayload_def mapAlert_def canonical_def field_def prop_of_def
      set_prop_def js_or_def nullish_def)

text \<open>
  C3, amended. For a payload that is an array of length N, or an object whose
  \<^verbatim>\<open>alerts\<close> is one, with no \<^verbatim>\<open>null\<close> or \<^verbatim>\<open>undefined\<close> element, the normaliser gives N
  canonical alerts, element by element; the id of an output element is non-empty
  (truthy) exactly when the raw element has a truthy \<^verbatim>\<open>alert_id\<close> or \<^verbatim>\<open>id\<close>. A payload
  that is no array and whose \<^verbatim>\<open>alerts\<close> is no array gives the empty list. Whatever the
  request's outcome, the rest of \<^verbatim>\<open>fetchAlerts\<close> returns: an exception of the mapping is
  caught there.
\<close>

theorem normalizer_shapes:
  "((\<forall>a\<in>set xs. \<not> nullish a)
      \<and> (d = JArr xs \<or> (\<exists>kvs. d = JObj kvs \<and> prop_of kvs ''alerts'' = JArr xs))
     \<longrightarrow> (\<exists>ys. normalizePayload d = Inr ys \<and> length ys = length xs
            \<and> (\<forall>i<length xs. ys ! i = canonical (xs ! i)
                  \<and> truthy (prop_of (ys ! i) ''id'')
                      = (truthy (field (xs ! i) ''alert_id'') \<or> truthy (field (xs ! i) ''id'')))))
   \<and> (\<not> isArray d \<and> \<not> isArray (field d ''alerts'') \<longrightarrow> normalizePayload d = Inr [])
   \<and> (\<exists>s' r. fetchAlerts_resume out s = Return s' r)"
proof -
  have shape: "normalizePayload d = Inr (map canonical xs)"
    if "\<forall>a\<in>set xs. \<not> nullish a"
      and "d = JArr xs \<or> (\<exists>kvs. d = JObj kvs \<and> prop_of kvs ''alerts'' = JArr xs)"
    using that by (auto simp: normalizePayload_array normalizePayload_wrapped mapAlerts_Inr)
  have ids: "\<forall>i<length xs. map canonical xs ! i = canonical (xs ! i)
                  \<and> truthy (prop_of (map canonical xs ! i) ''id'')
                      = (truthy (field (xs ! i) ''alert_id'') \<or> truthy (field (xs ! i) ''id''))"
    by (simp add: canonical_id truthy_js_or)
  have ret: "\<exists>s' r. fetchAlerts_resume out s = Return s' r"
    by (simp add: fetchAlerts_resume_def split: sum.splits)
  have first: "\<exists>ys. normalizePayload d = Inr ys \<and> length ys = length xs
            \<and> (\<forall>i<length xs. ys ! i = canonical (xs ! i)
                  \<and> truthy (prop_of (ys ! i) ''id'')
                      = (truthy (field (xs ! i) ''alert_id'') \<or> truthy (field (xs ! i) ''id'')))"
    if "\<forall>a\<in>set xs. \<not> nullish a"
      and "d = JArr xs \<or> (\<exists>kvs. d = JObj kvs \<and> prop_of kvs ''alerts'' = JArr xs)"
  proof (intro exI conjI)
    show "normalizePayload d = Inr (map canonical xs)" using that by (rule shape)
    show "length (map canonical xs) = length xs" by simp
    show "\<forall>i<length xs. map canonical xs ! i = canonical (xs ! i)
                  \<and> truthy (prop_of (map canonical xs ! i) ''id'')
                      = (truthy (field (xs ! i) ''alert_id'') \<or> truthy (field (xs ! i) ''id''))"
      by (rule ids)
  qed
  show ?thesis
    using first ret by (simp add: normalizePayload_other)
qed

theorem normalizer_shapes_witness:
  "\<not> nullish (JObj [(''alert_id'', JStr ''a7'')]) \<and> \<not> nullish (JObj [(''id'', JNum 3)])
   \<and> (\<exists>ys. normalizePayload (JArr [JObj [(''alert_id'', JStr ''a7'')], JObj [(''id'', JNum 3)]]) = Inr ys
          \<and> length ys = length [JObj [(''alert_id'', JStr ''a7'')], JObj [(''id'', JNum 3)]])
   \<and> prop_of [(''alerts'', JArr [JObj [(''alert_id'', JStr ''a7'')], JObj [(''id'', JNum 3)]])] ''alerts''
       = JArr [JObj [(''alert_id'', JStr ''a7'')], JObj [(''id'', JNum 3)]]
   \<and> (\<exists>ys. normalizePayload
               (JObj [(''alerts'', JArr [JObj [(''alert_id'', JStr ''a7'')], JObj [(''id'', JNum 3)]])])
             = Inr ys
          \<and> length ys = length [JObj [(''alert_id'', JStr ''a7'')], JObj [(''id'', JNum 3)]])
   \<and> \<not> isArray (JStr ''<html>'') \<and> \<not> isArray (field (JStr ''<html>'') ''alerts'')
   \<and> normalizePayload (JStr ''<html>'') = Inr []"
proof -
  have h1: "\<forall>a\<in>set [JObj [(''alert_id'', JStr ''a7'')], JObj [(''id'', JNum 3)]]. \<not> nullish a"
    by (simp add: nullish_def)
  have h2: "prop_of [(''alerts'', JArr [JObj [(''alert_id'', JStr ''a7'')], JObj [(''id'', JNum 3)]])] ''alerts''
       = JArr [JObj [(''alert_id'', JStr ''a7'')], JObj [(''id'', JNum 3)]]"
    by (simp add: prop_of_def)
  have h3: "\<not> isArray (JStr ''<html>'') \<and> \<not> isArray (field (JStr ''<html>'') ''alerts'')"
    by (simp add: field_def)
  from h1
    normalizer_shapes [of "[JObj [(''alert_id'', JStr ''a7'')], JObj [(''id'', JNum 3)]]"
      "JArr [JObj [(''alert_id'', JStr ''a7'')], JObj [(''id'', JNum 3)]]"]
  have c1: "\<exists>ys. normalizePayload (JArr [JObj [(''alert_id'', JStr ''a7'')], JObj [(''id'', JNum 3)]]) = Inr ys
          \<and> length ys = length [JObj [(''alert_id'', JStr ''a7'')], JObj [(''id'', JNum 3)]]"
    by blast
  from h1 h2
    normalizer_shapes [of "[JObj [(''alert_id'', JStr ''a7'')], JObj [(''id'', JNum 3)]]"
      "JObj [(''alerts'', JArr [JObj [(''alert_id'', JStr ''a7'')], JObj [(''id'', JNum 3)]])]"]
  have c2: "\<exists>ys. normalizePayload
               (JObj [(''alerts'', JArr [JObj [(''alert_id'', JStr ''a7'')], JObj [(''id'', JNum 3)]])])
             = Inr ys
          \<and> length ys = length [JObj [(''alert_id'', JStr ''a7'')], JObj [(''id'', JNum 3)]]"
    by blast
  from h3 normalizer_shapes [of "[]" "JStr ''<html>''"]
  have c3: "normalizePayload (JStr ''<html>'') = Inr []"
    by blast
  have h0: "\<not> nullish (JObj [(''alert_id'', JStr ''a7'')]) \<and> \<not> nullish (JObj [(''id'', JNum 3)])"
    by (simp add: nullish_def)
  from h0 h2 h3 c1 c2 c3 show ?thesis by blast
qed

text \<open>
  C4, as the specification states it, fails: the code resolves both fields with
  \<^verbatim>\<open>||\<close>, so an explicit \<^verbatim>\<open>is_acknowledged: false\<close> gives way to \<^verbatim>\<open>acknowledged: true\<close>,
  and an empty \<^verbatim>\<open>alert_id\<close> gives way to \<^verbatim>\<open>id\<close>.
\<close>

theorem field_resolution_counterexample:
  "mapAlert (JObj [(''is_acknowledged'', JBool False), (''acknowledged'', JBool True)])
     = Inr [(''is_acknowledged'', JBool True), (''acknowledged'', JBool True), (''id'', JUndefined)]
   \<and> spec_isAcknowledged (JObj [(''is_acknowledged'', JBool False), (''acknowledged'', JBool True)])
       = JBool False
   \<and> mapAlert (JObj [(''alert_id'', JStr ''''), (''id'', JStr ''x'')])
       = Inr [(''alert_id'', JStr ''''), (''id'', JStr ''x''), (''is_acknowledged'', JBool False)]
   \<and> spec_id (JObj [(''alert_id'', JStr ''''), (''id'', JStr ''x'')]) = JStr ''''"
  by (simp add: mapAlert_def canonical_def field_def prop_of_def set_prop_def js_or_def
      nullish_def spec_id_def spec_isAcknowledged_def js_coalesce_def)

text \<open>
  C4, amended. For a raw element that is not \<^verbatim>\<open>null\<close> or \<^verbatim>\<open>undefined\<close>, the canonical
  record has \<^verbatim>\<open>id = alert_id || id\<close> and
  \<^verbatim>\<open>is_acknowledged = is_acknowledged || acknowledged || false\<close> (the first truthy one),
  and every other property is the raw element's. The two resolved fields are the
  specification's \<^verbatim>\<open>??\<close> readings whenever the raw \<^verbatim>\<open>alert_id\<close>, \<^verbatim>\<open>is_acknowledged\<close> and
  \<^verbatim>\<open>acknowledged\<close> are each absent or truthy.
\<close>

theorem field_resolution:
  "\<not> nullish a \<Longrightarrow>
     mapAlert a = Inr (canonical a)
     \<and> prop_of (canonical a) ''id'' = js_or (field a ''alert_id'') (field a ''id'')
     \<and> prop_of (canonical a) ''is_acknowledged''
         = js_or (js_or (field a ''is_acknowledged'') (field a ''acknowledged'')) (JBool False)
     \<and> (\<forall>k. k \<noteq> ''id'' \<and> k \<noteq> ''is_acknowledged'' \<longrightarrow> prop_of (canonical a) k = prop_of (spread a) k)
     \<and> (nullish (field a ''alert_id'') \<or> truthy (field a ''alert_id'')
          \<longrightarrow> prop_of (canonical a) ''id'' = spec_id a)
     \<and> ((nullish (field a ''is_acknowledged'') \<or> truthy (field a ''is_acknowledged''))
          \<and> (nullish (field a ''acknowledged'') \<or> truthy (field a ''acknowledged''))
          \<longrightarrow> prop_of (canonical a) ''is_acknowledged'' = spec_isAcknowledged a)"
proof -
  assume "\<not> nullish a"
  have nf: "nullish v \<Longrightarrow> \<not> truthy v" for v
    by (auto simp: nullish_def)
  have a: "nullish x \<or> truthy x \<Longrightarrow> js_or x y = js_coalesce x y" for x y
    using nf by (auto simp: js_or_def js_coalesce_def)
  have b: "nullish x \<or> truthy x \<Longrightarrow> nullish y \<or> truthy y \<Longrightarrow>
           js_or (js_or x y) z = js_coalesce (js_coalesce x y) z" for x y z
    using nf by (auto simp: js_or_def js_coalesce_def)
  show ?thesis
    using \<open>\<not> nullish a\<close> a b
    by (simp add: mapAlert_def canonical_id canonical_is_acknowledged canonical_other
        spec_id_def spec_isAcknowledged_def)
qed

theorem field_resolution_witness:
  "\<not> nullish (JObj [(''alert_id'', JStr ''a7''), (''acknowledged'', JBool True), (''patient_id'', JStr ''p1'')])
   \<and> mapAlert (JObj [(''alert_id'', JStr ''a7''), (''acknowledged'', JBool True), (''patient_id'', JStr ''p1'')]) = Inr (canonical (JObj [(''alert_id'', JStr ''a7''), (''acknowledged'', JBool True), (''patient_id'', JStr ''p1'')]))
   \<and> prop_of (canonical (JObj [(''alert_id'', JStr ''a7''), (''acknowledged'', JBool True), (''patient_id'', JStr ''p1'')])) ''id'' = JStr ''a7''
   \<and> prop_of (canonical (JObj [(''alert_id'', JStr ''a7''), (''acknowledged'', JBool True), (''patient_id'', JStr ''p1'')])) ''is_acknowledged'' = JBool True
   \<and> prop_of (canonical (JObj [(''alert_id'', JStr ''a7''), (''acknowledged'', JBool True), (''patient_id'', JStr ''p1'')])) ''patient_id'' = JStr ''p1''
   \<and> prop_of (canonical (JObj [(''alert_id'', JStr ''a7''), (''acknowledged'', JBool True), (''patient_id'', JStr ''p1'')])) ''id'' = spec_id (JObj [(''alert_id'', JStr ''a7''), (''acknowledged'', JBool True), (''patient_id'', JStr ''p1'')])
   \<and> prop_of (canonical (JObj [(''alert_id'', JStr ''a7''), (''acknowledged'', JBool True), (''patient_id'', JStr ''p1'')])) ''is_acknowledged'' = spec_isAcknowledged (JObj [(''alert_id'', JStr ''a7''), (''acknowledged'', JBool True), (''patient_id'', JStr ''p1'')])"
  (is "\<not> nullish ?A \<and> _")
proof -
  have h: "\<not> nullish ?A"
    by (simp add: nullish_def)
  have f1: "field ?A ''alert_id'' = JStr ''a7''"
    and f2: "field ?A ''is_acknowledged'' = JUndefined"
    and f3: "field ?A ''acknowledged'' = JBool True"
    and f4: "prop_of (spread ?A) ''patient_id'' = JStr ''p1''"
    by (simp_all add: field_def prop_of_def)
  note t = field_resolution [OF h]
  note t1 = t [THEN conjunct1]
    and t2 = t [THEN conjunct2, THEN conjunct1]
    and t3 = t [THEN conjunct2, THEN conjunct2, THEN conjunct1]
    and t4 = t [THEN conjunct2, THEN conjunct2, THEN conjunct2, THEN conjunct1]
    and t5 = t [THEN conjunct2, THEN conjunct2, THEN conjunct2, THEN conjunct2, THEN conjunct1]
    and t6 = t [THEN conjunct2, THEN conjunct2, THEN conjunct2, THEN conjunct2, THEN conjunct2]
  have c2: "prop_of (canonical ?A) ''id'' = JStr ''a7''"
    unfolding t2 f1 by (simp add: js_or_def)
  have c3: "prop_of (canonical ?A) ''is_acknowledged'' = JBool True"
    unfolding t3 f2 f3 by (simp add: js_or_def)
  have "prop_of (canonical ?A) ''patient_id'' = prop_of (spread ?A) ''patient_id''"
    using t4 [rule_format, of "''patient_id''"] by simp
  with f4 have c4: "prop_of (canonical ?A) ''patient_id'' = JStr ''p1''"
    by simp
  have g1: "truthy (field ?A ''alert_id'')"
    and g2: "nullish (field ?A ''is_acknowledged'')"
    and g3: "truthy (field ?A ''acknowledged'')"
    unfolding f1 f2 f3 by (simp_all add: nullish_def)
  from t5 g1 have c5: "prop_of (canonical ?A) ''id'' = spec_id ?A"
    by blast
  from t6 g2 g3 have c6: "prop_of (canonical ?A) ''is_acknowledged'' = spec_isAcknowledged ?A"
    by blast
  from h t1 c2 c3 c4 c5 c6 show ?thesis
    by blast
qed

section \<open>Tier views\<close>

text \<open>
  C5. For an alert whose risk score is a number or absent, the alert is in the
  \<^verbatim>\<open>criticalAlerts\<close> view exactly when it is in the store and its severity is
  \<^verbatim>\<open>'critical'\<close> or its risk score is at least 0.8, and in the \<^verbatim>\<open>highRiskAlerts\<close> view
  exactly when it is in the store and its severity is \<^verbatim>\<open>'high'\<close> or its risk score is
  in [0.6, 0.8). The tiers overlap: severity \<^verbatim>\<open>'high'\<close> with risk score 0.9 is in both.
\<close>

theorem tier_views:
  "num_or_absent (prop_of a ''risk_score'') \<Longrightarrow>
     (a \<in> set (criticalAlerts tonum xs)) =
        (a \<in> set xs \<and> (prop_of a ''severity'' = JStr ''critical''
                        \<or> (\<exists>r. prop_of a ''risk_score'' = JNum r \<and> 8 / 10 \<le> r)))
     \<and> (a \<in> set (highRiskAlerts tonum xs)) =
        (a \<in> set xs \<and> (prop_of a ''severity'' = JStr ''high''
                        \<or> (\<exists>r. prop_of a ''risk_score'' = JNum r \<and> 6 / 10 \<le> r \<and> r < 8 / 10)))
     \<and> isCritical tonum [(''severity'', JStr ''high''), (''risk_score'', JNum (9 / 10))]
     \<and> isHighRisk tonum [(''severity'', JStr ''high''), (''risk_score'', JNum (9 / 10))]"
proof -
  assume t: "num_or_absent (prop_of a ''risk_score'')"
  have sev: "strict_eq v (JStr s) = (v = JStr s)" for v s
    by (cases v) (simp_all add: strict_eq_def)
  have crit: "isCritical tonum a = (prop_of a ''severity'' = JStr ''critical''
                        \<or> (\<exists>r. prop_of a ''risk_score'' = JNum r \<and> 8 / 10 \<le> r))"
    using t by (cases "prop_of a ''risk_score''")
      (auto simp: isCritical_def sev js_ge_def to_number_def)
  have high: "isHighRisk tonum a = (prop_of a ''severity'' = JStr ''high''
                        \<or> (\<exists>r. prop_of a ''risk_score'' = JNum r \<and> 6 / 10 \<le> r \<and> r < 8 / 10))"
    using t by (cases "prop_of a ''risk_score''")
      (auto simp: isHighRisk_def sev js_ge_def js_lt_def to_number_def)
  have ov: "isCritical tonum [(''severity'', JStr ''high''), (''risk_score'', JNum (9 / 10))]
     \<and> isHighRisk tonum [(''severity'', JStr ''high''), (''risk_score'', JNum (9 / 10))]"
    by (simp add: isCritical_def isHighRisk_def sev prop_of_def js_ge_def to_number_def)
  show ?thesis
    using crit high ov by (auto simp: criticalAlerts_def highRiskAlerts_def)
qed

theorem tier_views_witness:
  "num_or_absent (prop_of [(''id'', JStr ''a1''), (''risk_score'', JNum (85 / 100))] ''risk_score'')
   \<and> [(''id'', JStr ''a1''), (''risk_score'', JNum (85 / 100))]
        \<in> set (criticalAlerts (\<lambda>v. None)
             [[(''id'', JStr ''a0'')], [(''id'', JStr ''a1''), (''risk_score'', JNum (85 / 100))]])"
proof -
  have h: "num_or_absent (prop_of [(''id'', JStr ''a1''), (''risk_score'', JNum (85 / 100))] ''risk_score'')"
    by (simp add: prop_of_def)
  have m: "[(''id'', JStr ''a1''), (''risk_score'', JNum (85 / 100))]
        \<in> set [[(''id'', JStr ''a0'')], [(''id'', JStr ''a1''), (''risk_score'', JNum (85 / 100))]]"
    by simp
  have r: "\<exists>r. prop_of [(''id'', JStr ''a1''), (''risk_score'', JNum (85 / 100))] ''risk_score'' = JNum r
             \<and> 8 / 10 \<le> r"
    by (rule exI [of _ "85 / 100"]) (simp add: prop_of_def)
  from h m r
    tier_views [of "[(''id'', JStr ''a1''), (''risk_score'', JNum (85 / 100))]" "\<lambda>v. None"
      "[[(''id'', JStr ''a0'')], [(''id'', JStr ''a1''), (''risk_score'', JNum (85 / 100))]]"]
  show ?thesis by blast
qed

section \<open>Derived stats\<close>

text \<open>
  C9. Ingesting the scenario's fetch result (mount, then the first fetch fulfils with
  the two-element array) leaves a store whose stats are total 2, active 1, critical 1,
  highRisk 0, acknowledged 1.
\<close>

theorem stats_scenario:
  "stats_of tonum (alerts (st (exec [Mount, Settle 0 (Fulfilled scenario_payload)] init)))
     = \<lparr> total_count = 2, active = 1, critical = 1, highRisk = 0, acknowledged = 1 \<rparr>"
  by (simp add: init_def fetchAlerts_def fetchAlerts_resume_def scenario_payload_def
      normalizePayload_def mapAlert_def canonical_def field_def prop_of_def set_prop_def
      js_or_def nullish_def setAlerts_def setLoading_def setError_def setLastUpdated_def
      requested_def setInterval30000_def stats_of_def activeAlerts_def criticalAlerts_def
      highRiskAlerts_def acknowledgedAlerts_def isActive_def isCritical_def isHighRisk_def
      isAcknowledgedAlert_def strict_eq_def js_ge_def js_lt_def to_number_def)

text \<open>
  C10. In every store, the active and the acknowledged views share no alert and
  together hold every alert, so their lengths add up to the length of the list; in
  particular after any sequence of events (fetches settling, acknowledge, dismiss)
  from any state, \<open>active + acknowledged = total\<close> in the stats.
\<close>

theorem views_partition:
  "length (activeAlerts xs) + length (acknowledgedAlerts xs) = length xs
   \<and> set (activeAlerts xs) \<inter> set (acknowledgedAlerts xs) = {}
   \<and> set (activeAlerts xs) \<union> set (acknowledgedAlerts xs) = set xs
   \<and> active (stats_of tonum (alerts (st (exec evs w))))
       + acknowledged (stats_of tonum (alerts (st (exec evs w))))
       = total_count (stats_of tonum (alerts (st (exec evs w))))"
proof -
  have len: "length (activeAlerts ys) + length (acknowledgedAlerts ys) = length ys" for ys
    unfolding activeAlerts_def acknowledgedAlerts_def isActive_def isAcknowledgedAlert_def
    by (induction ys) simp_all
  have disj: "set (activeAlerts xs) \<inter> set (acknowledgedAlerts xs) = {}"
    by (auto simp: activeAlerts_def acknowledgedAlerts_def isActive_def isAcknowledgedAlert_def)
  have cover: "set (activeAlerts xs) \<union> set (acknowledgedAlerts xs) = set xs"
    by (auto simp: activeAlerts_def acknowledgedAlerts_def isActive_def isAcknowledgedAlert_def)
  show ?thesis
    using len [of xs] len [of "alerts (st (exec evs w))"] disj cover
    by (simp add: stats_of_def)
qed

section \<open>Fetching\<close>

text \<open>
  C1, as the specification states it, fails: a manual refresh while the fetch started
  at mount is in flight (\<^verbatim>\<open>loading\<close> is true) starts a second fetch, and so does a
  fire of the interval while a refresh is in flight; two fetches are then in flight,
  and the first to settle clears \<^verbatim>\<open>loading\<close> while the other is still under way.
\<close>

theorem single_flight_counterexample:
  "loading (st (exec [Mount] init))
   \<and> inflight (exec [Mount] init) = 1
   \<and> inflight (exec [Mount, Refresh] init) = 2
   \<and> loading (st (exec [Mount, Settle 0 (Fulfilled (JArr [])), Refresh] init))
   \<and> inflight (exec [Mount, Settle 0 (Fulfilled (JArr [])), Refresh] init) = 1
   \<and> inflight (exec [Mount, Settle 0 (Fulfilled (JArr [])), Refresh, TimerFire] init) = 2
   \<and> \<not> loading (st (exec [Mount, Refresh, Settle 0 (Fulfilled (JArr []))] init))
   \<and> inflight (exec [Mount, Refresh, Settle 0 (Fulfilled (JArr []))] init) = 1"
  by (simp add: init_def inflight_def fetchAlerts_def fetchAlerts_resume_def refreshAlerts_def
      normalizePayload_array setters)

text \<open>
  C1, amended. \<^verbatim>\<open>fetchAlerts\<close> never looks at \<^verbatim>\<open>loading\<close>: a manual refresh, and
  a timer fire while the interval is set, always starts one more fetch (sets
  \<^verbatim>\<open>loading\<close>, clears \<^verbatim>\<open>error\<close>, issues the request), whatever is already in flight.
\<close>

theorem trigger_starts_fetch:
  "inflight (step Refresh w) = inflight w + 1
   \<and> loading (st (step Refresh w))
   \<and> trace (st (step Refresh w))
       = trace (st w) @ [SetLoading True, SetError None, Requested GetActiveAlerts]
   \<and> (interval (st w) \<longrightarrow>
        inflight (step TimerFire w) = inflight w + 1
        \<and> loading (st (step TimerFire w))
        \<and> trace (st (step TimerFire w))
            = trace (st w) @ [SetLoading True, SetError None, Requested GetActiveAlerts])"
  by (simp add: inflight_def fetchAlerts_def refreshAlerts_def setters)

theorem trigger_starts_fetch_witness:
  "interval (st (exec [Mount, Settle 0 (Fulfilled (JArr [])), Refresh] init))
   \<and> loading (st (exec [Mount, Settle 0 (Fulfilled (JArr [])), Refresh] init))
   \<and> inflight (exec [Mount, Settle 0 (Fulfilled (JArr [])), Refresh] init) = 1
   \<and> inflight (step TimerFire (exec [Mount, Settle 0 (Fulfilled (JArr [])), Refresh] init))
       = inflight (exec [Mount, Settle 0 (Fulfilled (JArr [])), Refresh] init) + 1
   \<and> inflight (step Refresh (exec [Mount, Settle 0 (Fulfilled (JArr [])), Refresh] init))
       = inflight (exec [Mount, Settle 0 (Fulfilled (JArr [])), Refresh] init) + 1"
  (is "interval (st ?w) \<and> _")
proof -
  have h: "interval (st ?w) \<and> loading (st ?w) \<and> inflight ?w = 1"
    by (simp add: init_def inflight_def fetchAlerts_def fetchAlerts_resume_def
        refreshAlerts_def normalizePayload_array setters)
  from h trigger_starts_fetch [of ?w]
  show ?thesis by blast
qed

text \<open>
  C2, as the specification states it, fails: a fetch started at mount and settling
  after unmount still calls the setters (\<^verbatim>\<open>setAlerts\<close>, \<^verbatim>\<open>setLastUpdated\<close> and
  \<^verbatim>\<open>setLoading\<close> when it fulfils, \<^verbatim>\<open>setError\<close> and \<^verbatim>\<open>setLoading\<close> when it rejects).
\<close>

theorem write_after_unmount_counterexample:
  "mounted (st (exec [Mount] init))
   \<and> inflight (exec [Mount] init) = 1
   \<and> \<not> mounted (st (exec [Mount, Unmount] init))
   \<and> trace (st (exec [Mount, Unmount, Settle 0 (Fulfilled (JArr [JObj [(''id'', JStr ''a1'')]]))] init))
       = trace (st (exec [Mount, Unmount] init))
         @ [SetAlerts [[(''id'', JStr ''a1''), (''is_acknowledged'', JBool False)]],
            SetLastUpdated 0, SetLoading False]
   \<and> trace (st (exec [Mount, Unmount, Settle 0 Rejected] init))
       = trace (st (exec [Mount, Unmount] init))
         @ [SetError (Some ''Failed to load alerts''), SetLoading False]"
  by (simp add: init_def inflight_def fetchAlerts_def fetchAlerts_resume_def setters
      normalizePayload_array mapAlert_def canonical_def nullish_def field_def prop_of_def
      set_prop_def js_or_def)

text \<open>
  C2, amended. Unmounting clears the polling interval and nothing else: a later timer
  fire starts no fetch, the requests in flight stay in flight, and when a fetch
  settles after the unmount the rest of \<^verbatim>\<open>fetchAlerts\<close> runs as it does when mounted,
  calling \<^verbatim>\<open>setAlerts\<close>, \<^verbatim>\<open>setLastUpdated\<close> and \<^verbatim>\<open>setLoading(false)\<close> on success and
  \<^verbatim>\<open>setError\<close> and \<^verbatim>\<open>setLoading(false)\<close> on failure.
\<close>

theorem unmount_keeps_fetch:
  "pending (step Unmount w) = pending w
   \<and> trace (st (step Unmount w)) = trace (st w) @ [ClearInterval]
   \<and> step TimerFire (step Unmount w) = step Unmount w
   \<and> (n < length (pending w) \<and> snd (pending w ! n) = fetchAlerts_resume \<longrightarrow>
        (\<forall>xs. out = Fulfilled d \<and> normalizePayload d = Inr xs \<longrightarrow>
              trace (st (step (Settle n out) (step Unmount w)))
                = trace (st w) @ [ClearInterval, SetAlerts xs, SetLastUpdated (clock (st w)),
                                  SetLoading False])
        \<and> (fetch_failed out \<longrightarrow>
              trace (st (step (Settle n out) (step Unmount w)))
                = trace (st w) @ [ClearInterval, SetError (Some ''Failed to load alerts''),
                                  SetLoading False]))"
  by (cases out)
     (auto simp: fetchAlerts_resume_def fetch_failed_def setters split: sum.splits)

theorem unmount_keeps_fetch_witness:
  "0 < length (pending (exec [Mount] init))
   \<and> snd (pending (exec [Mount] init) ! 0) = fetchAlerts_resume
   \<and> fetch_failed Rejected
   \<and> trace (st (step (Settle 0 Rejected) (step Unmount (exec [Mount] init))))
       = trace (st (exec [Mount] init))
         @ [ClearInterval, SetError (Some ''Failed to load alerts''), SetLoading False]
   \<and> normalizePayload (JArr []) = Inr []
   \<and> trace (st (step (Settle 0 (Fulfilled (JArr []))) (step Unmount (exec [Mount] init))))
       = trace (st (exec [Mount] init))
         @ [ClearInterval, SetAlerts [], SetLastUpdated (clock (st (exec [Mount] init))),
            SetLoading False]"
proof -
  have h1: "0 < length (pending (exec [Mount] init))
            \<and> snd (pending (exec [Mount] init) ! 0) = fetchAlerts_resume"
    by (simp add: init_def fetchAlerts_def)
  have h2: "fetch_failed Rejected"
    by (simp add: fetch_failed_def)
  have h3: "normalizePayload (JArr []) = Inr []"
    by (simp add: normalizePayload_array)
  from h1 h2 unmount_keeps_fetch [of "exec [Mount] init" 0 Rejected]
  have c1: "trace (st (step (Settle 0 Rejected) (step Unmount (exec [Mount] init))))
       = trace (st (exec [Mount] init))
         @ [ClearInterval, SetError (Some ''Failed to load alerts''), SetLoading False]"
    by blast
  from h1 h3 unmount_keeps_fetch [of "exec [Mount] init" 0 "Fulfilled (JArr [])" "JArr []"]
  have c2: "trace (st (step (Settle 0 (Fulfilled (JArr []))) (step Unmount (exec [Mount] init))))
       = trace (st (exec [Mount] init))
         @ [ClearInterval, SetAlerts [], SetLastUpdated (clock (st (exec [Mount] init))),
            SetLoading False]"
    by blast
  from h1 h2 h3 c1 c2 show ?thesis by blast
qed

text \<open>
  C6. Starting a fetch leaves the alert list as it is, and when the fetch fails (the
  request rejects, or the normaliser throws) the rest of \<^verbatim>\<open>fetchAlerts\<close> leaves the
  alert list and \<^verbatim>\<open>lastUpdated\<close> unchanged, records the message
  \<^verbatim>\<open>'Failed to load alerts'\<close>, clears \<^verbatim>\<open>loading\<close>, makes exactly these two setter calls
  and returns the empty list.
\<close>

theorem fetch_failure:
  "alerts (state_of (fetchAlerts s0)) = alerts s0
   \<and> (fetch_failed out \<longrightarrow>
        alerts (state_of (fetchAlerts_resume out s)) = alerts s
        \<and> error (state_of (fetchAlerts_resume out s)) = Some ''Failed to load alerts''
        \<and> loading (state_of (fetchAlerts_resume out s)) = False
        \<and> lastUpdated (state_of (fetchAlerts_resume out s)) = lastUpdated s
        \<and> trace (state_of (fetchAlerts_resume out s))
            = trace s @ [SetError (Some ''Failed to load alerts''), SetLoading False]
        \<and> returns (fetchAlerts_resume out s) = Some (RetAlerts []))"
  by (cases out)
     (auto simp: fetch_failed_def fetchAlerts_def fetchAlerts_resume_def setters
           split: sum.splits)

theorem fetch_failure_witness:
  "fetch_failed Rejected
   \<and> alerts (state_of (fetchAlerts_resume Rejected (st (exec [Mount] init)))) = []
   \<and> error (state_of (fetchAlerts_resume Rejected (st (exec [Mount] init))))
       = Some ''Failed to load alerts''
   \<and> loading (state_of (fetchAlerts_resume Rejected (st (exec [Mount] init)))) = False
   \<and> fetch_failed (Fulfilled (JArr [JNull]))
   \<and> error (state_of (fetchAlerts_resume (Fulfilled (JArr [JNull])) (st (exec [Mount] init))))
       = Some ''Failed to load alerts''"
proof -
  have h1: "fetch_failed Rejected"
    by (simp add: fetch_failed_def)
  have h2: "fetch_failed (Fulfilled (JArr [JNull]))"
    by (simp add: fetch_failed_def normalizePayload_array mapAlert_def nullish_def)
  have a0: "alerts (st (exec [Mount] init)) = []"
    by (simp add: init_def fetchAlerts_def setters)
  from h1 h2 a0
    fetch_failure [of "st init" Rejected "st (exec [Mount] init)"]
    fetch_failure [of "st init" "Fulfilled (JArr [JNull])" "st (exec [Mount] init)"]
  show ?thesis by simp
qed

section \<open>Acknowledge and dismiss\<close>

text \<open>
  C7. For a primitive id, \<^verbatim>\<open>acknowledgeAlert\<close> first calls \<^verbatim>\<open>setAlerts\<close> with the edited
  list and only then issues the request, where it suspends. The edited list has the
  length of the old one; an alert whose id is the given one has \<^verbatim>\<open>is_acknowledged\<close>
  true and every other property unchanged; every other alert is unchanged. Editing
  twice is editing once.
\<close>

theorem acknowledge_optimistic:
  "is_prim alertId \<Longrightarrow>
     awaits (acknowledgeAlert alertId s) = Some (PostAcknowledge alertId)
     \<and> trace (state_of (acknowledgeAlert alertId s))
         = trace s @ [SetAlerts (acknowledgeEdit alertId (alerts s)),
                      Requested (PostAcknowledge alertId)]
     \<and> alerts (state_of (acknowledgeAlert alertId s)) = acknowledgeEdit alertId (alerts s)
     \<and> length (acknowledgeEdit alertId xs) = length xs
     \<and> (\<forall>i<length xs.
          if prop_of (xs ! i) ''id'' = alertId
          then prop_of (acknowledgeEdit alertId xs ! i) ''is_acknowledged'' = JBool True
               \<and> (\<forall>k. k \<noteq> ''is_acknowledged'' \<longrightarrow>
                     prop_of (acknowledgeEdit alertId xs ! i) k = prop_of (xs ! i) k)
          else acknowledgeEdit alertId xs ! i = xs ! i)
     \<and> acknowledgeEdit alertId (acknowledgeEdit alertId xs) = acknowledgeEdit alertId xs"
proof -
  assume p: "is_prim alertId"
  have idem: "acknowledgeEdit alertId (acknowledgeEdit alertId xs) = acknowledgeEdit alertId xs"
    by (induction xs)
       (simp_all add: acknowledgeEdit_def prop_of_set_prop_other set_prop_def)
  show ?thesis
    using p idem
    by (simp add: acknowledgeAlert_def setters acknowledgeEdit_def strict_eq_prim
        prop_of_set_prop_same prop_of_set_prop_other)
qed

theorem acknowledge_optimistic_witness:
  "is_prim (JStr ''a1'')
   \<and> awaits (acknowledgeAlert (JStr ''a1'')
        ((st init)\<lparr>alerts := [[(''id'', JStr ''a1''), (''severity'', JStr ''high'')],
                              [(''id'', JStr ''a2'')]]\<rparr>))
       = Some (PostAcknowledge (JStr ''a1''))
   \<and> alerts (state_of (acknowledgeAlert (JStr ''a1'')
        ((st init)\<lparr>alerts := [[(''id'', JStr ''a1''), (''severity'', JStr ''high'')],
                              [(''id'', JStr ''a2'')]]\<rparr>)))
       = [[(''id'', JStr ''a1''), (''severity'', JStr ''high''), (''is_acknowledged'', JBool True)],
          [(''id'', JStr ''a2'')]]"
proof -
  have h: "is_prim (JStr ''a1'')" by simp
  have e: "acknowledgeEdit (JStr ''a1'')
             [[(''id'', JStr ''a1''), (''severity'', JStr ''high'')], [(''id'', JStr ''a2'')]]
       = [[(''id'', JStr ''a1''), (''severity'', JStr ''high''), (''is_acknowledged'', JBool True)],
          [(''id'', JStr ''a2'')]]"
    by (simp add: acknowledgeEdit_def strict_eq_def prop_of_def set_prop_def)
  from h e
    acknowledge_optimistic [of "JStr ''a1''"
      "(st init)\<lparr>alerts := [[(''id'', JStr ''a1''), (''severity'', JStr ''high'')],
                              [(''id'', JStr ''a2'')]]\<rparr>"]
  show ?thesis by simp
qed

text \<open>
  C8. When the remote call fulfils, \<^verbatim>\<open>acknowledgeAlert\<close> and \<^verbatim>\<open>dismissAlert\<close> return
  true. When it rejects, each continues as \<^verbatim>\<open>await fetchAlerts(); return false\<close>: it
  starts a fetch from the state it finds (no write to the alert list, so the
  optimistic edit stays), is suspended on that request without having returned, and
  once the fetch settles, however it settles, it has done what the rest of
  \<^verbatim>\<open>fetchAlerts\<close> does and returns false. In the event loop, from any state: the
  effects of a call whose remote call rejects are the optimistic edit, the remote
  call, then the start of a fetch, in this order; nothing has been returned at that
  point, and false is returned when the fetch settles.
\<close>

theorem mutation_outcome:
  "returns (resume (acknowledgeAlert alertId s) (Fulfilled v) s1) = Some (RetBool True)
   \<and> returns (resume (dismissAlert alertId s) (Fulfilled v) s1) = Some (RetBool True)
   \<and> resume (acknowledgeAlert alertId s) Rejected s1
       = then_proc (fetchAlerts s1) (\<lambda>r s''. Return s'' (RetBool False))
   \<and> resume (dismissAlert alertId s) Rejected s1
       = then_proc (fetchAlerts s1) (\<lambda>r s''. Return s'' (RetBool False))
   \<and> awaits (then_proc (fetchAlerts s1) (\<lambda>r s''. Return s'' (RetBool False)))
       = Some GetActiveAlerts
   \<and> returns (then_proc (fetchAlerts s1) (\<lambda>r s''. Return s'' (RetBool False))) = None
   \<and> state_of (then_proc (fetchAlerts s1) (\<lambda>r s''. Return s'' (RetBool False)))
       = state_of (fetchAlerts s1)
   \<and> alerts (state_of (then_proc (fetchAlerts s1) (\<lambda>r s''. Return s'' (RetBool False))))
       = alerts s1
   \<and> returns (resume (then_proc (fetchAlerts s1) (\<lambda>r s''. Return s'' (RetBool False))) out s2)
       = Some (RetBool False)
   \<and> state_of (resume (then_proc (fetchAlerts s1) (\<lambda>r s''. Return s'' (RetBool False))) out s2)
       = state_of (fetchAlerts_resume out s2)
   \<and> trace (st (step (Settle (length (pending w)) Rejected) (step (Acknowledge alertId) w)))
       = trace (st w) @ [SetAlerts (acknowledgeEdit alertId (alerts (st w))),
                         Requested (PostAcknowledge alertId),
                         SetLoading True, SetError None, Requested GetActiveAlerts]
   \<and> returned (step (Settle (length (pending w)) Rejected) (step (Acknowledge alertId) w))
       = returned w
   \<and> returned (step (Settle (length (pending w)) out)
                 (step (Settle (length (pending w)) Rejected) (step (Acknowledge alertId) w)))
       = returned w @ [RetBool False]
   \<and> returned (step (Settle (length (pending w)) (Fulfilled v)) (step (Acknowledge alertId) w))
       = returned w @ [RetBool True]
   \<and> trace (st (step (Settle (length (pending w)) Rejected) (step (Dismiss alertId) w)))
       = trace (st w) @ [SetAlerts (dismissEdit alertId (alerts (st w))),
                         Requested (DeleteAlert alertId),
                         SetLoading True, SetError None, Requested GetActiveAlerts]
   \<and> returned (step (Settle (length (pending w)) Rejected) (step (Dismiss alertId) w))
       = returned w
   \<and> returned (step (Settle (length (pending w)) out)
                 (step (Settle (length (pending w)) Rejected) (step (Dismiss alertId) w)))
       = returned w @ [RetBool False]
   \<and> returned (step (Settle (length (pending w)) (Fulfilled v)) (step (Dismiss alertId) w))
       = returned w @ [RetBool True]"
proof -
  have calls:
    "returns (resume (acknowledgeAlert alertId s) (Fulfilled v) s1) = Some (RetBool True)
     \<and> returns (resume (dismissAlert alertId s) (Fulfilled v) s1) = Some (RetBool True)
     \<and> resume (acknowledgeAlert alertId s) Rejected s1
         = then_proc (fetchAlerts s1) (\<lambda>r s''. Return s'' (RetBool False))
     \<and> resume (dismissAlert alertId s) Rejected s1
         = then_proc (fetchAlerts s1) (\<lambda>r s''. Return s'' (RetBool False))"
    by (simp add: acknowledgeAlert_def dismissAlert_def setters)
  have resync:
    "awaits (then_proc (fetchAlerts s1) (\<lambda>r s''. Return s'' (RetBool False)))
         = Some GetActiveAlerts
     \<and> returns (then_proc (fetchAlerts s1) (\<lambda>r s''. Return s'' (RetBool False))) = None
     \<and> state_of (then_proc (fetchAlerts s1) (\<lambda>r s''. Return s'' (RetBool False)))
         = state_of (fetchAlerts s1)
     \<and> alerts (state_of (then_proc (fetchAlerts s1) (\<lambda>r s''. Return s'' (RetBool False))))
         = alerts s1
     \<and> returns (resume (then_proc (fetchAlerts s1) (\<lambda>r s''. Return s'' (RetBool False))) out s2)
         = Some (RetBool False)
     \<and> state_of (resume (then_proc (fetchAlerts s1) (\<lambda>r s''. Return s'' (RetBool False))) out s2)
         = state_of (fetchAlerts_resume out s2)"
    by (cases out)
       (auto simp: fetchAlerts_def fetchAlerts_resume_def setters split: sum.splits)
  have ack:
    "trace (st (step (Settle (length (pending w)) Rejected) (step (Acknowledge alertId) w)))
         = trace (st w) @ [SetAlerts (acknowledgeEdit alertId (alerts (st w))),
                           Requested (PostAcknowledge alertId),
                           SetLoading True, SetError None, Requested GetActiveAlerts]
     \<and> returned (step (Settle (length (pending w)) Rejected) (step (Acknowledge alertId) w))
         = returned w
     \<and> returned (step (Settle (length (pending w)) out)
                   (step (Settle (length (pending w)) Rejected) (step (Acknowledge alertId) w)))
         = returned w @ [RetBool False]
     \<and> returned (step (Settle (length (pending w)) (Fulfilled v)) (step (Acknowledge alertId) w))
         = returned w @ [RetBool True]"
    by (cases out)
       (auto simp: acknowledgeAlert_def fetchAlerts_def fetchAlerts_resume_def setters
          split: sum.splits)
  have dis:
    "trace (st (step (Settle (length (pending w)) Rejected) (step (Dismiss alertId) w)))
         = trace (st w) @ [SetAlerts (dismissEdit alertId (alerts (st w))),
                           Requested (DeleteAlert alertId),
                           SetLoading True, SetError None, Requested GetActiveAlerts]
     \<and> returned (step (Settle (length (pending w)) Rejected) (step (Dismiss alertId) w))
         = returned w
     \<and> returned (step (Settle (length (pending w)) out)
                   (step (Settle (length (pending w)) Rejected) (step (Dismiss alertId) w)))
         = returned w @ [RetBool False]
     \<and> returned (step (Settle (length (pending w)) (Fulfilled v)) (step (Dismiss alertId) w))
         = returned w @ [RetBool True]"
    by (cases out)
       (auto simp: dismissAlert_def fetchAlerts_def fetchAlerts_resume_def setters
          split: sum.splits)
  from calls resync ack dis show ?thesis
    by blast
qed

end
